theory Spec2Isabelle
  imports Main
begin

section \<open>The yfinance bridge: values, normalisation and the envelope\<close>

text \<open>
  A shallow embedding of \<^verbatim>\<open>yf_bridge.py\<close>: the Python values that reach
  \<^verbatim>\<open>_serialize_value\<close>, the normaliser itself, \<^verbatim>\<open>json.dumps\<close> as far as the
  envelope functions use it, and \<^verbatim>\<open>main\<close>.
\<close>

subsection \<open>Python values\<close>

text \<open>
  A Python float is NaN, one of the two infinities, or a finite double. No arithmetic is
  done on floats by the bridge; a finite double is identified by its \<^verbatim>\<open>repr()\<close> text
  (which is injective on doubles), the only thing \<^verbatim>\<open>str()\<close> and the JSON encoder observe.
\<close>

datatype pyfloat = NaN | PosInf | NegInf | Finite string

text \<open>
  A \<^verbatim>\<open>pandas.Timestamp\<close> by its fields; the UTC offset, when the timestamp is timezone
  aware, in minutes.
\<close>

record timestamp =
  ts_year :: nat
  ts_month :: nat
  ts_day :: nat
  ts_hour :: nat
  ts_minute :: nat
  ts_second :: nat
  ts_microsecond :: nat
  ts_nanosecond :: nat
  ts_utcoffset :: "int option"

text \<open>
  An exception value: its class name and the text \<^verbatim>\<open>str(exc)\<close> gives. The values are
  instances of \<^verbatim>\<open>Exception\<close>, which is what the \<^verbatim>\<open>except Exception\<close> clauses of the source
  catch; \<^verbatim>\<open>KeyboardInterrupt\<close> and \<^verbatim>\<open>SystemExit\<close> are not among them.
\<close>

datatype exn = Exn (exn_class: string) (exn_str: string)

text \<open>
  Hashable values used as dictionary keys, column labels and series names. The bridge only
  ever applies \<^verbatim>\<open>str()\<close> to them, so a label of any other class (a tuple of a MultiIndex,
  say) is represented by the name of its class and its \<^verbatim>\<open>str()\<close> text. A
  \<^verbatim>\<open>pandas.Period\<close> is represented by its textual label, which is what \<^verbatim>\<open>str()\<close>
  returns for it.
\<close>

datatype label =
    LNone
  | LBool bool
  | LInt int
  | LFloat pyfloat
  | LStr string
  | LTimestamp timestamp
  | LPeriod string
  | LOther string string

text \<open>
  The values \<^verbatim>\<open>_serialize_value\<close> receives and returns.
  \<^item> \<open>NpFloat64\<close> is \<^verbatim>\<open>numpy.float64\<close>, the one numpy scalar class that is also a
    subclass of Python's \<^verbatim>\<open>float\<close>; \<open>NpScalar c v\<close> is an instance of any other
    subclass \<open>c\<close> of \<^verbatim>\<open>numpy.generic\<close>, \<open>v\<close> being what its \<^verbatim>\<open>item()\<close> returns.
  \<^item> \<open>NpArray xs\<close> is a \<^verbatim>\<open>numpy.ndarray\<close> of at least one dimension, \<open>xs\<close> being its
    \<^verbatim>\<open>tolist()\<close>.
  \<^item> \<open>PyDataFrame cols idx cells\<close> is a \<^verbatim>\<open>pandas.DataFrame\<close> with column labels
    \<open>cols\<close>, \<^verbatim>\<open>index.tolist()\<close> equal to \<open>idx\<close> and \<^verbatim>\<open>to_numpy().tolist()\<close> equal to
    \<open>cells\<close>; \<open>PySeries name idx vals\<close> is a \<^verbatim>\<open>pandas.Series\<close> likewise.
  \<^item> \<open>PyDictLike c r\<close> is an object of some other class \<open>c\<close> that has \<^verbatim>\<open>keys\<close> and
    \<^verbatim>\<open>__getitem__\<close>: \<open>r = Inl e\<close> when \<^verbatim>\<open>keys()\<close> raises \<open>e\<close>, and otherwise
    \<open>r = Inr entries\<close>, the keys in enumeration order, each with the outcome of
    \<^verbatim>\<open>value[k]\<close>: the value, or the exception raised (by the lookup, or by \<^verbatim>\<open>str(k)\<close>
    in the same iteration of the comprehension).
  \<^item> \<open>PyObject c\<close> is an object of any other class \<open>c\<close>; the missing-value markers
    \<^verbatim>\<open>pd.NaT\<close> and \<^verbatim>\<open>pd.NA\<close> are not among the values modelled.
\<close>

datatype pyval =
    PyNone
  | PyBool bool
  | PyInt int
  | PyFloat pyfloat
  | PyStr string
  | PyList "pyval list"
  | PyTuple "pyval list"
  | PyDict "(label \<times> pyval) list"
  | PyTimestamp timestamp
  | PyPeriod string
  | NpFloat64 pyfloat
  | NpScalar string pyval
  | NpArray "pyval list"
  | PyDataFrame "label list" "pyval list" "pyval list list"
  | PySeries label "pyval list" "pyval list"
  | PyDictLike string "exn + (label \<times> (exn + pyval)) list"
  | PyObject string

subsection \<open>The builtin \<^verbatim>\<open>str()\<close> and \<^verbatim>\<open>Timestamp.isoformat()\<close>\<close>

definition digit_char :: "nat \<Rightarrow> char" where
  "digit_char n = ''0123456789'' ! n"

fun str_nat :: "nat \<Rightarrow> string" where
  "str_nat n = (if n < 10 then [digit_char n] else str_nat (n div 10) @ [digit_char (n mod 10)])"

declare str_nat.simps [simp del]

definition str_int :: "int \<Rightarrow> string" where
  "str_int i = (if i < 0 then CHR ''-'' # str_nat (nat (- i)) else str_nat (nat i))"

definition zfill :: "nat \<Rightarrow> string \<Rightarrow> string" where
  "zfill w s = replicate (w - length s) CHR ''0'' @ s"

definition float_str :: "pyfloat \<Rightarrow> string" where
  "float_str f = (case f of NaN \<Rightarrow> ''nan'' | PosInf \<Rightarrow> ''inf'' | NegInf \<Rightarrow> ''-inf''
                   | Finite r \<Rightarrow> r)"

text \<open>
  \<^verbatim>\<open>Timestamp.isoformat(sep)\<close>: date, separator, time (with the fraction when there is
  one), and the UTC offset when there is one. \<^verbatim>\<open>str(ts)\<close> is \<^verbatim>\<open>ts.isoformat(sep=' ')\<close>.
\<close>

definition date_text :: "timestamp \<Rightarrow> string" where
  "date_text t =
     zfill 4 (str_nat (ts_year t)) @ ''-'' @ zfill 2 (str_nat (ts_month t)) @ ''-''
       @ zfill 2 (str_nat (ts_day t))"

definition time_text :: "timestamp \<Rightarrow> string" where
  "time_text t =
     zfill 2 (str_nat (ts_hour t)) @ '':'' @ zfill 2 (str_nat (ts_minute t)) @ '':''
       @ zfill 2 (str_nat (ts_second t))
     @ (if ts_nanosecond t \<noteq> 0
        then ''.'' @ zfill 6 (str_nat (ts_microsecond t)) @ zfill 3 (str_nat (ts_nanosecond t))
        else if ts_microsecond t \<noteq> 0 then ''.'' @ zfill 6 (str_nat (ts_microsecond t))
        else [])"

definition offset_text :: "int option \<Rightarrow> string" where
  "offset_text off =
     (case off of
        None \<Rightarrow> []
      | Some m \<Rightarrow> (if m < 0 then ''-'' else ''+'') @ zfill 2 (str_nat (nat \<bar>m\<bar> div 60))
                   @ '':'' @ zfill 2 (str_nat (nat \<bar>m\<bar> mod 60)))"

definition isoformat_sep :: "char \<Rightarrow> timestamp \<Rightarrow> string" where
  "isoformat_sep sep t =
     date_text t @ [sep] @ time_text t @ offset_text (ts_utcoffset t)"

definition isoformat :: "timestamp \<Rightarrow> string" where
  "isoformat t = isoformat_sep CHR ''T'' t"

fun py_str :: "label \<Rightarrow> string" where
  "py_str LNone = ''None''"
| "py_str (LBool b) = (if b then ''True'' else ''False'')"
| "py_str (LInt i) = str_int i"
| "py_str (LFloat f) = float_str f"
| "py_str (LStr s) = s"
| "py_str (LTimestamp t) = isoformat_sep CHR '' '' t"
| "py_str (LPeriod p) = p"
| "py_str (LOther c s) = s"

subsection \<open>The normaliser\<close>

text \<open>\<^verbatim>\<open>_to_iso\<close>: a timestamp becomes its ISO text, a period its label, anything else is
  returned as it is.\<close>

fun to_iso :: "pyval \<Rightarrow> pyval" where
  "to_iso (PyTimestamp t) = PyStr (isoformat t)"
| "to_iso (PyPeriod p) = PyStr p"
| "to_iso v = v"

text \<open>
  \<^verbatim>\<open>pd.notnull\<close> on one cell, and \<^verbatim>\<open>x.where(pd.notnull(x), None)\<close> on one cell: a
  missing cell is replaced by \<^verbatim>\<open>None\<close>.
\<close>

fun pd_isnull :: "pyval \<Rightarrow> bool" where
  "pd_isnull PyNone = True"
| "pd_isnull (PyFloat f) = (f = NaN)"
| "pd_isnull (NpFloat64 f) = (f = NaN)"
| "pd_isnull _ = False"

definition where_notnull :: "pyval \<Rightarrow> pyval" where
  "where_notnull v = (if pd_isnull v then PyNone else v)"

text \<open>\<^verbatim>\<open>d[k] = v\<close> on a dictionary kept in insertion order.\<close>

fun dict_setitem :: "('k \<times> 'v) list \<Rightarrow> 'k \<Rightarrow> 'v \<Rightarrow> ('k \<times> 'v) list" where
  "dict_setitem [] k v = [(k, v)]"
| "dict_setitem ((k', v') # d) k v =
     (if k' = k then (k', v) # d else (k', v') # dict_setitem d k v)"

text \<open>
  A dictionary comprehension, run over the outcomes of its iterations (the exception an
  iteration raised, or the key and value it produced): it stops at the first exception.
\<close>

fun comprehension ::
  "(exn + 'k \<times> 'v) list \<Rightarrow> ('k \<times> 'v) list \<Rightarrow> exn + ('k \<times> 'v) list" where
  "comprehension [] d = Inr d"
| "comprehension (Inl e # rest) d = Inl e"
| "comprehension (Inr (k, v) # rest) d = comprehension rest (dict_setitem d k v)"

text \<open>A dictionary comprehension none of whose iterations raises.\<close>

definition dict_of_items :: "('k \<times> 'v) list \<Rightarrow> ('k \<times> 'v) list" where
  "dict_of_items kvs = foldl (\<lambda>d (k, v). dict_setitem d k v) [] kvs"

text \<open>\<^verbatim>\<open>isinstance(val, float) and math.isnan(val)\<close>.\<close>

fun is_nan_float :: "pyval \<Rightarrow> bool" where
  "is_nan_float (PyFloat f) = (f = NaN)"
| "is_nan_float (NpFloat64 f) = (f = NaN)"
| "is_nan_float _ = False"

lemma size_where_notnull: "size (where_notnull v) \<le> size v"
  by (simp add: where_notnull_def)

lemma size_elem_less: "v \<in> set row \<Longrightarrow> size v < Suc (size_list size row)"
  by (induction row) auto

lemma size_row_less:
  "row \<in> set rows \<Longrightarrow> size_list size row < Suc (size_list (size_list size) rows)"
  by (induction rows) auto

lemma size_where_elem_less:
  "v \<in> set row \<Longrightarrow> size (where_notnull v) < Suc (n + size_list size row)"
  using size_elem_less [of v row] size_where_notnull [of v] by simp

lemma size_where_cell_less:
  "row \<in> set rows \<Longrightarrow> v \<in> set row \<Longrightarrow>
   size (where_notnull v) < Suc (n + size_list (size_list size) rows)"
  using size_elem_less [of v row] size_row_less [of row rows] size_where_notnull [of v]
  by simp

lemma size_item_less:
  "(k, v) \<in> set items \<Longrightarrow> size v < Suc (size_list (size_prod (\<lambda>x. 0) size) items)"
  by (induction items) auto

lemma size_entry_less:
  "(k, Inr v) \<in> set entries \<Longrightarrow>
   size v < Suc (Suc (size_list (size_prod (\<lambda>x. 0) (size_sum (\<lambda>x. 0) size)) entries))"
  by (induction entries) auto

text \<open>
  \<^verbatim>\<open>_serialize_value\<close>. The equations follow the order of the source's tests: DataFrame,
  Series, objects with \<^verbatim>\<open>keys\<close> and \<^verbatim>\<open>__getitem__\<close> (a literal \<^verbatim>\<open>dict\<close> is one of them,
  and the lookups of its own keys do not raise), numpy scalars, numpy arrays, \<^verbatim>\<open>dict\<close>,
  list and tuple, timestamp and period, NaN float, anything else.
  When the comprehension over a \<open>PyDictLike\<close> raises, the exception is dropped and the
  remaining tests are made; none of them holds for such an object, which is returned.
  This is the normaliser on a run that stays below the interpreter's recursion limit;
  \<open>serialize_value_within\<close> below accounts for the limit.
\<close>

function (sequential) serialize_value :: "pyval \<Rightarrow> pyval" where
  "serialize_value (PyDataFrame cols idx cells) =
     (let df = map (map where_notnull) cells in
      PyDict [(LStr ''__type__'', PyStr ''dataframe''),
              (LStr ''columns'', PyList (map (\<lambda>c. PyStr (py_str c)) cols)),
              (LStr ''index'', PyList (map to_iso idx)),
              (LStr ''data'', PyList (map (\<lambda>row. PyList (map serialize_value row)) df))])"
| "serialize_value (PySeries name idx vals) =
     (let series = map where_notnull vals in
      PyDict [(LStr ''__type__'', PyStr ''series''),
              (LStr ''name'', if name \<noteq> LNone then PyStr (py_str name) else PyNone),
              (LStr ''index'', PyList (map to_iso idx)),
              (LStr ''data'', PyList (map serialize_value series))])"
| "serialize_value (PyDict items) =
     (case comprehension
             (map (\<lambda>(k, v). Inr (LStr (py_str k), serialize_value v)) items) [] of
        Inr d \<Rightarrow> PyDict d
      | Inl e \<Rightarrow>
          PyDict (dict_of_items (map (\<lambda>(k, v). (LStr (py_str k), serialize_value v)) items)))"
| "serialize_value (PyDictLike c (Inl e)) = PyDictLike c (Inl e)"
| "serialize_value (PyDictLike c (Inr entries)) =
     (case comprehension
             (map (\<lambda>(k, r). case r of Inl e \<Rightarrow> Inl e
                                      | Inr v \<Rightarrow> Inr (LStr (py_str k), serialize_value v))
                  entries) [] of
        Inr d \<Rightarrow> PyDict d
      | Inl e \<Rightarrow> PyDictLike c (Inr entries))"
| "serialize_value (NpFloat64 f) =
     (let val = PyFloat f in if is_nan_float val then PyNone else val)"
| "serialize_value (NpScalar c v) =
     (let val = v in if is_nan_float val then PyNone else val)"
| "serialize_value (NpArray xs) = PyList (map serialize_value xs)"
| "serialize_value (PyList xs) = PyList (map serialize_value xs)"
| "serialize_value (PyTuple xs) = PyList (map serialize_value xs)"
| "serialize_value (PyTimestamp t) = to_iso (PyTimestamp t)"
| "serialize_value (PyPeriod p) = to_iso (PyPeriod p)"
| "serialize_value (PyFloat f) = (if is_nan_float (PyFloat f) then PyNone else PyFloat f)"
| "serialize_value v = v"
  by pat_completeness auto
termination
proof (relation "measure size", goal_cases)
  case 1
  show ?case by simp
next
  case (2 cols idx cells df row v)
  then show ?case by (auto simp: size_where_cell_less)
next
  case (3 name idx vals series v)
  then show ?case by (auto simp: size_where_elem_less)
next
  case (4 items kv k v)
  then show ?case using size_item_less [of k v items] by simp
next
  case (5 items e kv k v)
  then show ?case using size_item_less [of k v items] by simp
next
  case (6 c entries kr k r v)
  then show ?case using size_entry_less [of k v entries] by simp
next
  case (7 xs x)
  then show ?case by (simp add: size_elem_less)
next
  case (8 xs x)
  then show ?case by (simp add: size_elem_less)
next
  case (9 xs x)
  then show ?case by (simp add: size_elem_less)
qed




subsection \<open>JSON documents and \<^verbatim>\<open>json.dumps\<close>\<close>

text \<open>
  A JSON document as a tree. \<^verbatim>\<open>json.loads\<close> returns Python values of these shapes only
  (an object as a \<^verbatim>\<open>dict\<close> with string keys), and the text \<^verbatim>\<open>json.dumps\<close> returns
  denotes such a tree; \<open>JFloat NaN\<close>, \<open>JFloat PosInf\<close> and \<open>JFloat NegInf\<close> are the
  tokens \<^verbatim>\<open>NaN\<close>, \<^verbatim>\<open>Infinity\<close> and \<^verbatim>\<open>-Infinity\<close>, which are not JSON.
\<close>

datatype json =
    JNull
  | JBool bool
  | JInt int
  | JFloat pyfloat
  | JStr string
  | JArr "json list"
  | JObj "(string \<times> json) list"

definition is_finite :: "pyfloat \<Rightarrow> bool" where
  "is_finite f = (case f of Finite r \<Rightarrow> True | _ \<Rightarrow> False)"

fun type_name :: "pyval \<Rightarrow> string" where
  "type_name PyNone = ''NoneType''"
| "type_name (PyBool b) = ''bool''"
| "type_name (PyInt i) = ''int''"
| "type_name (PyFloat f) = ''float''"
| "type_name (PyStr s) = ''str''"
| "type_name (PyList xs) = ''list''"
| "type_name (PyTuple xs) = ''tuple''"
| "type_name (PyDict items) = ''dict''"
| "type_name (PyTimestamp t) = ''Timestamp''"
| "type_name (PyPeriod p) = ''Period''"
| "type_name (NpFloat64 f) = ''float64''"
| "type_name (NpScalar c v) = c"
| "type_name (NpArray xs) = ''ndarray''"
| "type_name (PyDataFrame cols idx cells) = ''DataFrame''"
| "type_name (PySeries name idx vals) = ''Series''"
| "type_name (PyDictLike c r) = c"
| "type_name (PyObject c) = c"

fun label_type_name :: "label \<Rightarrow> string" where
  "label_type_name LNone = ''NoneType''"
| "label_type_name (LBool b) = ''bool''"
| "label_type_name (LInt i) = ''int''"
| "label_type_name (LFloat f) = ''float''"
| "label_type_name (LStr s) = ''str''"
| "label_type_name (LTimestamp t) = ''Timestamp''"
| "label_type_name (LPeriod p) = ''Period''"
| "label_type_name (LOther c s) = c"

text \<open>
  The encoder on a float: with \<^verbatim>\<open>allow_nan=False\<close> a float that is not finite raises
  \<^verbatim>\<open>ValueError\<close>; otherwise it is written as one of the three tokens.
\<close>

definition out_of_range :: exn where
  "out_of_range = Exn ''ValueError'' ''Out of range float values are not JSON compliant''"

definition dumps_float :: "bool \<Rightarrow> pyfloat \<Rightarrow> exn + json" where
  "dumps_float allow_nan f =
     (if is_finite f \<or> allow_nan then Inr (JFloat f) else Inl out_of_range)"

text \<open>The encoder on a dictionary key: a string, a float, a boolean, \<^verbatim>\<open>None\<close> and an
  integer are written as strings; a key of any other class raises \<^verbatim>\<open>TypeError\<close>.\<close>

fun dumps_key :: "bool \<Rightarrow> label \<Rightarrow> exn + string" where
  "dumps_key allow_nan (LStr s) = Inr s"
| "dumps_key allow_nan (LFloat f) =
     (case f of
        Finite r \<Rightarrow> Inr r
      | NaN \<Rightarrow> if allow_nan then Inr ''NaN'' else Inl out_of_range
      | PosInf \<Rightarrow> if allow_nan then Inr ''Infinity'' else Inl out_of_range
      | NegInf \<Rightarrow> if allow_nan then Inr ''-Infinity'' else Inl out_of_range)"
| "dumps_key allow_nan (LBool b) = Inr (if b then ''true'' else ''false'')"
| "dumps_key allow_nan LNone = Inr ''null''"
| "dumps_key allow_nan (LInt i) = Inr (str_int i)"
| "dumps_key allow_nan k =
     Inl (Exn ''TypeError''
            (''keys must be str, int, float, bool or None, not '' @ label_type_name k))"

text \<open>
  \<^verbatim>\<open>json.dumps(value, allow_nan=...)\<close>: the document, or the first exception the encoder
  raises. A list and a tuple are both written as an array; \<^verbatim>\<open>numpy.float64\<close> is a
  \<^verbatim>\<open>float\<close> to the encoder; a value of any class it does not know raises \<^verbatim>\<open>TypeError\<close>.
\<close>

fun json_dumps :: "bool \<Rightarrow> pyval \<Rightarrow> exn + json"
  and dumps_list :: "bool \<Rightarrow> pyval list \<Rightarrow> exn + json list"
  and dumps_items :: "bool \<Rightarrow> (label \<times> pyval) list \<Rightarrow> exn + (string \<times> json) list"
where
  "json_dumps allow_nan PyNone = Inr JNull"
| "json_dumps allow_nan (PyBool b) = Inr (JBool b)"
| "json_dumps allow_nan (PyStr s) = Inr (JStr s)"
| "json_dumps allow_nan (PyInt i) = Inr (JInt i)"
| "json_dumps allow_nan (PyFloat f) = dumps_float allow_nan f"
| "json_dumps allow_nan (NpFloat64 f) = dumps_float allow_nan f"
| "json_dumps allow_nan (PyList xs) =
     (case dumps_list allow_nan xs of Inl e \<Rightarrow> Inl e | Inr js \<Rightarrow> Inr (JArr js))"
| "json_dumps allow_nan (PyTuple xs) =
     (case dumps_list allow_nan xs of Inl e \<Rightarrow> Inl e | Inr js \<Rightarrow> Inr (JArr js))"
| "json_dumps allow_nan (PyDict items) =
     (case dumps_items allow_nan items of Inl e \<Rightarrow> Inl e | Inr kvs \<Rightarrow> Inr (JObj kvs))"
| "json_dumps allow_nan v =
     Inl (Exn ''TypeError'' (''Object of type '' @ type_name v @ '' is not JSON serializable''))"
| "dumps_list allow_nan [] = Inr []"
| "dumps_list allow_nan (x # xs) =
     (case json_dumps allow_nan x of
        Inl e \<Rightarrow> Inl e
      | Inr j \<Rightarrow> (case dumps_list allow_nan xs of Inl e \<Rightarrow> Inl e | Inr js \<Rightarrow> Inr (j # js)))"
| "dumps_items allow_nan [] = Inr []"
| "dumps_items allow_nan ((k, v) # rest) =
     (case dumps_key allow_nan k of
        Inl e \<Rightarrow> Inl e
      | Inr s \<Rightarrow>
          (case json_dumps allow_nan v of
             Inl e \<Rightarrow> Inl e
           | Inr j \<Rightarrow>
               (case dumps_items allow_nan rest of
                  Inl e \<Rightarrow> Inl e
                | Inr kvs \<Rightarrow> Inr ((s, j) # kvs))))"

subsection \<open>The request: reading, the envelope, \<^verbatim>\<open>main\<close>\<close>

text \<open>
  \<^verbatim>\<open>str.strip()\<close> removes leading and trailing whitespace. Characters are code points
  below 256; those for which \<^verbatim>\<open>str.isspace\<close> holds are listed.
\<close>

definition py_isspace :: "char \<Rightarrow> bool" where
  "py_isspace c \<longleftrightarrow>
     c \<in> set [CHR 0x09, CHR 0x0A, CHR 0x0B, CHR 0x0C, CHR 0x0D, CHR 0x1C, CHR 0x1D,
               CHR 0x1E, CHR 0x1F, CHR 0x20, CHR 0x85, CHR 0xA0]"

definition py_strip :: "string \<Rightarrow> string" where
  "py_strip s = rev (dropWhile py_isspace (rev (dropWhile py_isspace s)))"

text \<open>Truth value of a string or \<^verbatim>\<open>None\<close> (\<^verbatim>\<open>if _IMPORT_ERROR\<close>, \<^verbatim>\<open>if details\<close>), and of a
  decoded JSON value (\<^verbatim>\<open>not action\<close>).\<close>

definition str_truthy :: "string option \<Rightarrow> bool" where
  "str_truthy s = (case s of None \<Rightarrow> False | Some t \<Rightarrow> t \<noteq> [])"

fun json_truthy :: "json \<Rightarrow> bool" where
  "json_truthy JNull = False"
| "json_truthy (JBool b) = b"
| "json_truthy (JInt i) = (i \<noteq> 0)"
| "json_truthy (JFloat f) = (f \<noteq> Finite ''0.0'' \<and> f \<noteq> Finite ''-0.0'')"
| "json_truthy (JStr s) = (s \<noteq> [])"
| "json_truthy (JArr xs) = (xs \<noteq> [])"
| "json_truthy (JObj kvs) = (kvs \<noteq> [])"

fun json_type_name :: "json \<Rightarrow> string" where
  "json_type_name JNull = ''NoneType''"
| "json_type_name (JBool b) = ''bool''"
| "json_type_name (JInt i) = ''int''"
| "json_type_name (JFloat f) = ''float''"
| "json_type_name (JStr s) = ''str''"
| "json_type_name (JArr xs) = ''list''"
| "json_type_name (JObj kvs) = ''dict''"

text \<open>\<^verbatim>\<open>payload.get(key, dflt)\<close>: only a \<^verbatim>\<open>dict\<close> has the method.\<close>

fun py_get :: "json \<Rightarrow> string \<Rightarrow> json \<Rightarrow> exn + json" where
  "py_get (JObj kvs) key dflt =
     Inr (case map_of kvs key of Some v \<Rightarrow> v | None \<Rightarrow> dflt)"
| "py_get v key dflt =
     Inl (Exn ''AttributeError''
            ([CHR 0x27] @ json_type_name v @ [CHR 0x27] @ '' object has no attribute ''
               @ [CHR 0x27] @ ''get'' @ [CHR 0x27]))"

text \<open>
  What the process is given: the outcome of the guarded imports (\<^verbatim>\<open>_IMPORT_ERROR\<close>), the
  text on standard input, and three functions the source calls but does not define:
  \<^verbatim>\<open>json.loads\<close>, \<^verbatim>\<open>traceback.format_exc\<close>, and the result of \<^verbatim>\<open>_dispatch\<close>, which
  is whatever the yfinance library returns or raises for the action and its arguments.
\<close>

record env =
  import_error :: "string option"
  stdin :: string
  json_loads :: "string \<Rightarrow> exn + json"
  format_exc :: "exn \<Rightarrow> string"
  dispatch :: "json \<Rightarrow> json \<Rightarrow> exn + pyval"

text \<open>
  What the process does: the documents written to standard output, in order, and the calls
  made to \<^verbatim>\<open>_dispatch\<close>.
\<close>

record world =
  stdout :: "json list"
  dispatched :: "(json \<times> json) list"

definition start :: world where
  "start = \<lparr>stdout = [], dispatched = []\<rparr>"

text \<open>
  Each of the following returns the exception that escapes it, if any, and the world it
  leaves. \<^verbatim>\<open>json.dumps\<close> returns before \<^verbatim>\<open>sys.stdout.write\<close> is called, so an encoder
  exception leaves standard output as it was.
\<close>

definition read_payload :: "env \<Rightarrow> exn + json" where
  "read_payload env =
     (let raw = stdin env in
      if py_strip raw = [] then Inr (JObj []) else json_loads env raw)"

definition ok :: "pyval \<Rightarrow> world \<Rightarrow> exn option \<times> world" where
  "ok result w =
     (let payload = PyDict [(LStr ''ok'', PyBool True),
                            (LStr ''result'', serialize_value result)]
      in case json_dumps False payload of
           Inl e \<Rightarrow> (Some e, w)
         | Inr doc \<Rightarrow> (None, w\<lparr>stdout := stdout w @ [doc]\<rparr>))"

definition err :: "string \<Rightarrow> string option \<Rightarrow> world \<Rightarrow> exn option \<times> world" where
  "err message details w =
     (let payload = [(LStr ''ok'', PyBool False), (LStr ''error'', PyStr message)];
          payload = (if str_truthy details
                     then dict_setitem payload (LStr ''details'') (PyStr (the details))
                     else payload)
      in case json_dumps True (PyDict payload) of
           Inl e \<Rightarrow> (Some e, w)
         | Inr doc \<Rightarrow> (None, w\<lparr>stdout := stdout w @ [doc]\<rparr>))"

text \<open>
  \<^verbatim>\<open>main\<close>. Only \<^verbatim>\<open>_dispatch\<close> and \<^verbatim>\<open>_ok\<close> are inside the \<^verbatim>\<open>try\<close>; an exception
  raised by \<^verbatim>\<open>_read_payload\<close>, by \<^verbatim>\<open>payload.get\<close> or by \<^verbatim>\<open>_err\<close> escapes \<^verbatim>\<open>main\<close>.
\<close>

definition main :: "env \<Rightarrow> exn option \<times> world" where
  "main env =
     (if str_truthy (import_error env) then
        err ''Missing Python dependencies for yfinance bridge.''
            (Some ''Install with: pip install -r mcp/python/requirements.txt'') start
      else
        case read_payload env of
          Inl e \<Rightarrow> (Some e, start)
        | Inr payload \<Rightarrow>
            (case py_get payload ''action'' JNull of
               Inl e \<Rightarrow> (Some e, start)
             | Inr action \<Rightarrow>
                 (case py_get payload ''args'' (JObj []) of
                    Inl e \<Rightarrow> (Some e, start)
                  | Inr args \<Rightarrow>
                      if \<not> json_truthy action then err ''Missing action in payload'' None start
                      else
                        (let w = start\<lparr>dispatched := [(action, args)]\<rparr> in
                         case dispatch env action args of
                           Inl exc \<Rightarrow> err (exn_str exc) (Some (format_exc env exc)) w
                         | Inr result \<Rightarrow>
                             (case ok result w of
                                (None, w') \<Rightarrow> (None, w')
                              | (Some exc, w') \<Rightarrow>
                                  err (exn_str exc) (Some (format_exc env exc)) w')))))"

subsection \<open>Notions used to state the properties\<close>

text \<open>The failure document of the envelope: \<open>details\<close> is present when it is not empty.\<close>

definition failure_envelope :: "string \<Rightarrow> string option \<Rightarrow> json" where
  "failure_envelope message details =
     JObj ([(''ok'', JBool False), (''error'', JStr message)]
           @ (if str_truthy details then [(''details'', JStr (the details))] else []))"

text \<open>A document free of the tokens \<^verbatim>\<open>NaN\<close>, \<^verbatim>\<open>Infinity\<close> and \<^verbatim>\<open>-Infinity\<close>.\<close>

fun no_nan_token :: "json \<Rightarrow> bool" where
  "no_nan_token (JFloat f) = is_finite f"
| "no_nan_token (JArr xs) = (\<forall>x\<in>set xs. no_nan_token x)"
| "no_nan_token (JObj kvs) = (\<forall>(k, v)\<in>set kvs. no_nan_token v)"
| "no_nan_token j = True"

text \<open>A normalised value that holds a float that is not finite, at any depth of its
  lists, tuples and dictionaries.\<close>

fun contains_nonfinite :: "pyval \<Rightarrow> bool" where
  "contains_nonfinite (PyFloat f) = (\<not> is_finite f)"
| "contains_nonfinite (NpFloat64 f) = (\<not> is_finite f)"
| "contains_nonfinite (PyList xs) = (\<exists>x\<in>set xs. contains_nonfinite x)"
| "contains_nonfinite (PyTuple xs) = (\<exists>x\<in>set xs. contains_nonfinite x)"
| "contains_nonfinite (PyDict items) = (\<exists>(k, v)\<in>set items. contains_nonfinite v)"
| "contains_nonfinite v = False"

text \<open>The field \<open>key\<close> of a normalised record, when it has one.\<close>

fun py_lookup :: "pyval \<Rightarrow> string \<Rightarrow> pyval option" where
  "py_lookup (PyDict items) key = map_of items (LStr key)"
| "py_lookup v key = None"

text \<open>The example timestamp 2024-03-01 00:00:00 UTC.\<close>

definition ts_example :: timestamp where
  "ts_example = \<lparr>ts_year = 2024, ts_month = 3, ts_day = 1, ts_hour = 0, ts_minute = 0,
                  ts_second = 0, ts_microsecond = 0, ts_nanosecond = 0,
                  ts_utcoffset = Some 0\<rparr>"

text \<open>
  Example environments: a decoder that rejects every text, and one that decodes every text
  to a given document; a provider that returns a given value whatever the action.
\<close>

definition env_rejecting :: "string \<Rightarrow> env" where
  "env_rejecting raw =
     \<lparr>import_error = None, stdin = raw,
      json_loads = (\<lambda>s. Inl (Exn ''JSONDecodeError'' ''Expecting value: line 1 column 1 (char 0)'')),
      format_exc = (\<lambda>e. ''Traceback (most recent call last): '' @ exn_class e @ '': '' @ exn_str e),
      dispatch = (\<lambda>action args. Inr PyNone)\<rparr>"

definition env_returning :: "string \<Rightarrow> json \<Rightarrow> pyval \<Rightarrow> env" where
  "env_returning raw doc result =
     \<lparr>import_error = None, stdin = raw,
      json_loads = (\<lambda>s. Inr doc),
      format_exc = (\<lambda>e. ''Traceback (most recent call last): '' @ exn_class e @ '': '' @ exn_str e),
      dispatch = (\<lambda>action args. Inr result)\<rparr>"

text \<open>An example request, as text and decoded.\<close>

definition request_text :: string where
  \<open>request_text = ''{"action": "ticker_info", "args": {"ticker": "MSFT"}}''\<close>

definition request_doc :: json where
  "request_doc = JObj [(''action'', JStr ''ticker_info''),
                       (''args'', JObj [(''ticker'', JStr ''MSFT'')])]"



text \<open>
  Example datasets: a two-column frame with a missing cell, a named series indexed by a
  timestamp, and a frame whose column label is a timestamp and whose index holds a
  timestamp and a period.
\<close>

definition frame_example :: pyval where
  "frame_example =
     PyDataFrame [LStr ''date'', LStr ''value''] [PyInt 0, PyInt 1]
       [[PyStr ''2024-01-01'', PyFloat (Finite ''1.0'')],
        [PyStr ''2024-01-02'', PyFloat NaN]]"

definition series_example :: pyval where
  "series_example = PySeries (LStr ''close'') [PyTimestamp ts_example] [PyFloat (Finite ''42.5'')]"

definition dated_frame_example :: pyval where
  "dated_frame_example =
     PyDataFrame [LTimestamp ts_example] [PyTimestamp ts_example, PyPeriod ''2024Q1'']
       [[PyInt 1], [PyInt 2]]"








section \<open>Properties\<close>

subsection \<open>Auxiliary facts\<close>

lemma err_writes:
  "err message details w = (None, w\<lparr>stdout := stdout w @ [failure_envelope message details]\<rparr>)"
  by (simp add: err_def failure_envelope_def)

lemma py_strip_empty_iff: "py_strip s = [] \<longleftrightarrow> (\<forall>c\<in>set s. py_isspace c)"
proof
  assume "py_strip s = []"
  then have "\<forall>c\<in>set (dropWhile py_isspace s). py_isspace c"
    by (simp add: py_strip_def)
  then have "dropWhile py_isspace s = []"
    by (metis hd_dropWhile list.set_sel(1))
  then show "\<forall>c\<in>set s. py_isspace c"
    by simp
next
  assume "\<forall>c\<in>set s. py_isspace c"
  then show "py_strip s = []"
    by (auto simp: py_strip_def dest: set_dropWhileD)
qed

lemma main_no_action:
  assumes "\<not> str_truthy (import_error env)"
    and "read_payload env = Inr (JObj kvs)"
    and "case map_of kvs ''action'' of None \<Rightarrow> True | Some a \<Rightarrow> \<not> json_truthy a"
  shows "main env =
           (None, \<lparr>stdout = [failure_envelope ''Missing action in payload'' None],
                   dispatched = []\<rparr>)"
  using assms
  by (simp add: main_def err_writes start_def split: option.splits)

lemma dumps_no_nan_token:
  "json_dumps False v = Inr d \<Longrightarrow> no_nan_token d"
  "dumps_list False xs = Inr ds \<Longrightarrow> \<forall>x\<in>set ds. no_nan_token x"
  "dumps_items False items = Inr kvs \<Longrightarrow> \<forall>(k, x)\<in>set kvs. no_nan_token x"
proof (induction False v and False xs and False items arbitrary: d and ds and kvs
       rule: json_dumps_dumps_list_dumps_items.induct)
qed (fastforce simp: dumps_float_def split: sum.splits if_splits)+

lemma dumps_rejects_nonfinite:
  "contains_nonfinite v \<Longrightarrow> isl (json_dumps False v)"
  "\<exists>x\<in>set xs. contains_nonfinite x \<Longrightarrow> isl (dumps_list False xs)"
  "\<exists>(k, x)\<in>set items. contains_nonfinite x \<Longrightarrow> isl (dumps_items False items)"
proof (induction False v and False xs and False items
       rule: json_dumps_dumps_list_dumps_items.induct)
qed (fastforce simp: dumps_float_def split: sum.splits if_splits)+

lemma ok_stdout:
  assumes "ok result w = (r, w')" and "\<forall>d\<in>set (stdout w). no_nan_token d"
  shows "\<forall>d\<in>set (stdout w'). no_nan_token d"
proof (cases "json_dumps False (serialize_value result)")
  case (Inl e)
  then show ?thesis using assms by (simp add: ok_def)
next
  case (Inr j)
  then have "no_nan_token j" by (rule dumps_no_nan_token(1))
  then show ?thesis using assms Inr by (auto simp: ok_def)
qed

lemma failure_envelope_no_nan_token: "no_nan_token (failure_envelope message details)"
  by (simp add: failure_envelope_def)

lemma err_stdout:
  assumes "\<forall>d\<in>set (stdout w). no_nan_token d"
  shows "\<forall>d\<in>set (stdout (snd (err message details w))). no_nan_token d"
  using assms by (simp add: err_writes failure_envelope_no_nan_token)

lemma handled_stdout:
  assumes "\<forall>d\<in>set (stdout w). no_nan_token d"
  shows "\<forall>d\<in>set (stdout (snd (case ok result w of
                                       (None, w') \<Rightarrow> (None, w')
                                     | (Some exc, w') \<Rightarrow> err (m exc) (t exc) w'))).
           no_nan_token d"
proof (cases "ok result w")
  case (Pair r w')
  then have "\<forall>d\<in>set (stdout w'). no_nan_token d"
    using assms by (rule ok_stdout)
  then show ?thesis
    using Pair by (cases r) (simp_all add: err_stdout)
qed

lemma main_stdout_no_nan_token: "\<forall>d\<in>set (stdout (snd (main env))). no_nan_token d"
proof -
  have s: "\<forall>d\<in>set (stdout (start\<lparr>dispatched := c\<rparr>)). no_nan_token d" for c
    by (simp add: start_def)
  have s0: "\<forall>d\<in>set (stdout start). no_nan_token d"
    by (simp add: start_def)
  show ?thesis
  proof (cases "str_truthy (import_error env)")
    case True
    then show ?thesis using err_stdout [OF s0] by (simp add: main_def)
  next
    case imp: False
    show ?thesis
    proof (cases "read_payload env")
      case (Inl e)
      then show ?thesis using imp by (simp add: main_def s0)
    next
      case rd: (Inr payload)
      show ?thesis
      proof (cases "py_get payload ''action'' JNull")
        case (Inl e)
        then show ?thesis using imp rd by (simp add: main_def s0)
      next
        case act: (Inr action)
        show ?thesis
        proof (cases "py_get payload ''args'' (JObj [])")
          case (Inl e)
          then show ?thesis using imp rd act by (simp add: main_def s0)
        next
          case args: (Inr args)
          show ?thesis
          proof (cases "json_truthy action")
            case False
            then show ?thesis using imp rd act args err_stdout [OF s0] by (simp add: main_def)
          next
            case tr: True
            show ?thesis
            proof (cases "dispatch env action args")
              case (Inl exc)
              then show ?thesis
                using imp rd act args tr err_stdout [OF s] by (simp add: main_def Let_def)
            next
              case (Inr result)
              then show ?thesis
                using imp rd act args tr handled_stdout [OF s]
                by (simp add: main_def Let_def)
            qed
          qed
        qed
      qed
    qed
  qed
qed

lemma ok_rejects:
  assumes "contains_nonfinite (serialize_value result)"
  shows "\<exists>e. json_dumps False (PyDict [(LStr ''ok'', PyBool True), (LStr ''result'', serialize_value result)]) = Inl e
           \<and> ok result w = (Some e, w)"
proof -
  have "isl (json_dumps False (serialize_value result))"
    using assms by (rule dumps_rejects_nonfinite(1))
  then obtain e where "json_dumps False (serialize_value result) = Inl e"
    by (cases "json_dumps False (serialize_value result)") auto
  then show ?thesis
    by (simp add: ok_def)
qed

lemma main_rejected:
  assumes "\<not> str_truthy (import_error env)"
    and "read_payload env = Inr payload"
    and "py_get payload ''action'' JNull = Inr action"
    and "py_get payload ''args'' (JObj []) = Inr args"
    and "json_truthy action"
    and "dispatch env action args = Inr result"
    and "ok result (start\<lparr>dispatched := [(action, args)]\<rparr>) = (Some e, w)"
  shows "main env = (None, w\<lparr>stdout := stdout w @ [failure_envelope (exn_str e) (Some (format_exc env e))]\<rparr>)"
  using assms by (simp add: main_def err_writes)















subsection \<open>NaN and infinity\<close>

text \<open>
  C1. A raw scalar that is a floating-point NaN is normalised to \<^verbatim>\<open>None\<close> (JSON null),
  whether it is a plain float, a \<^verbatim>\<open>numpy.float64\<close> or any other numpy scalar whose
  \<^verbatim>\<open>item()\<close> is a NaN float; the result is neither a number nor the string \<^verbatim>\<open>"NaN"\<close>, and
  is written as \<^verbatim>\<open>null\<close>.
\<close>

theorem nan_scalar_is_null:
  "serialize_value (PyFloat NaN) = PyNone
   \<and> serialize_value (NpFloat64 NaN) = PyNone
   \<and> serialize_value (NpScalar c (PyFloat NaN)) = PyNone
   \<and> PyNone \<noteq> PyFloat f \<and> PyNone \<noteq> PyStr ''NaN''
   \<and> json_dumps False (serialize_value (PyFloat NaN)) = Inr JNull"
  by simp

text \<open>
  C2, as stated, fails: a raw float that is positive infinity is not normalised to
  \<^verbatim>\<open>None\<close>.
\<close>

theorem infinity_is_not_null: "serialize_value (PyFloat PosInf) \<noteq> PyNone"
  by simp

text \<open>
  C2, amended. A raw float that is positive or negative infinity is returned by the
  normaliser unchanged, as a float (plain, or unwrapped from a numpy scalar): only NaN
  becomes \<^verbatim>\<open>None\<close>. A number of the normalised tree can therefore hold an infinity; the
  success envelope for such a result is not written, \<^verbatim>\<open>json.dumps\<close> raising
  \<^verbatim>\<open>ValueError\<close> under \<^verbatim>\<open>allow_nan=False\<close>.
\<close>

theorem infinity_is_kept:
  "serialize_value (PyFloat PosInf) = PyFloat PosInf
   \<and> serialize_value (PyFloat NegInf) = PyFloat NegInf
   \<and> serialize_value (NpFloat64 PosInf) = PyFloat PosInf
   \<and> serialize_value (NpFloat64 NegInf) = PyFloat NegInf
   \<and> serialize_value (NpScalar c (PyFloat PosInf)) = PyFloat PosInf
   \<and> serialize_value (NpScalar c (PyFloat NegInf)) = PyFloat NegInf
   \<and> ok (PyFloat PosInf) w = (Some out_of_range, w)
   \<and> ok (PyFloat NegInf) w = (Some out_of_range, w)"
  by (simp add: ok_def dumps_float_def is_finite_def)

text \<open>
  C3. When the request reaches \<^verbatim>\<open>_ok\<close> and the normalised result holds a float that is
  not finite, \<^verbatim>\<open>_ok\<close> raises before anything is written; \<^verbatim>\<open>main\<close> catches the exception
  and writes exactly one document, the failure envelope carrying the exception's text and
  the traceback; nothing escapes \<^verbatim>\<open>main\<close>. Whatever the environment, no document written
  holds one of the tokens \<^verbatim>\<open>NaN\<close>, \<^verbatim>\<open>Infinity\<close>, \<^verbatim>\<open>-Infinity\<close>.
\<close>

theorem nonfinite_result_is_rejected:
  assumes "\<not> str_truthy (import_error env)"
    and "read_payload env = Inr payload"
    and "py_get payload ''action'' JNull = Inr action"
    and "py_get payload ''args'' (JObj []) = Inr args"
    and "json_truthy action"
    and "dispatch env action args = Inr result"
    and "contains_nonfinite (serialize_value result)"
  shows "(\<exists>e. ok result (start\<lparr>dispatched := [(action, args)]\<rparr>)
                = (Some e, start\<lparr>dispatched := [(action, args)]\<rparr>)
              \<and> main env =
                  (None, \<lparr>stdout = [failure_envelope (exn_str e) (Some (format_exc env e))],
                          dispatched = [(action, args)]\<rparr>))
         \<and> (\<forall>d\<in>set (stdout (snd (main env'))). no_nan_token d)"
proof -
  obtain e where e: "ok result (start\<lparr>dispatched := [(action, args)]\<rparr>)
                       = (Some e, start\<lparr>dispatched := [(action, args)]\<rparr>)"
    using ok_rejects [OF assms(7)] by blast
  from main_rejected [OF assms(1-6) e]
  have "main env =
          (None, \<lparr>stdout = [failure_envelope (exn_str e) (Some (format_exc env e))],
                  dispatched = [(action, args)]\<rparr>)"
    by (simp add: start_def)
  with e main_stdout_no_nan_token show ?thesis
    by blast
qed

theorem nonfinite_result_is_rejected_witness:
  "contains_nonfinite (serialize_value (PyDict [(LStr ''regularMarketPrice'', PyFloat PosInf)]))
   \<and> main (env_returning request_text request_doc
              (PyDict [(LStr ''regularMarketPrice'', PyFloat PosInf)])) =
       (None,
        \<lparr>stdout = [JObj [(''ok'', JBool False),
                          (''error'', JStr ''Out of range float values are not JSON compliant''),
                          (''details'', JStr ''Traceback (most recent call last): ValueError: Out of range float values are not JSON compliant'')]],
         dispatched = [(JStr ''ticker_info'', JObj [(''ticker'', JStr ''MSFT'')])]\<rparr>)
   \<and> list_all no_nan_token
        (stdout (snd (main (env_returning request_text request_doc
                              (PyDict [(LStr ''regularMarketPrice'', PyFloat PosInf)])))))"
proof -
  let ?result = "PyDict [(LStr ''regularMarketPrice'', PyFloat PosInf)]"
  let ?env = "env_returning request_text request_doc ?result"
  let ?action = "JStr ''ticker_info''"
  let ?args = "JObj [(''ticker'', JStr ''MSFT'')]"
  have h1: "\<not> str_truthy (import_error ?env)"
    by (simp add: env_returning_def str_truthy_def)
  have h2: "read_payload ?env = Inr request_doc"
    by (simp add: env_returning_def read_payload_def request_text_def py_strip_def
        py_isspace_def)
  have h3: "py_get request_doc ''action'' JNull = Inr ?action"
    by (simp add: request_doc_def)
  have h4: "py_get request_doc ''args'' (JObj []) = Inr ?args"
    by (simp add: request_doc_def)
  have h5: "json_truthy ?action"
    by simp
  have h6: "dispatch ?env ?action ?args = Inr ?result"
    by (simp add: env_returning_def)
  have h7: "contains_nonfinite (serialize_value ?result)"
    by (simp add: is_finite_def)
  have e: "ok ?result w = (Some out_of_range, w)" for w
    by (simp add: ok_def dumps_float_def is_finite_def)
  from nonfinite_result_is_rejected [OF h1 h2 h3 h4 h5 h6 h7, of ?env] h7 e show ?thesis
    by (auto simp: list_all_iff failure_envelope_def str_truthy_def out_of_range_def
        env_returning_def)
qed

subsection \<open>Requests without an action\<close>

text \<open>
  C9. When the imports succeeded and the input document is a JSON object without the field
  \<open>action\<close> (the empty document among them), exactly one document is written, the
  failure envelope with the error \<^verbatim>\<open>Missing action in payload\<close> and no other field;
  nothing escapes and \<^verbatim>\<open>_dispatch\<close> is not called.
\<close>

theorem missing_action_short_circuits:
  assumes "\<not> str_truthy (import_error env)"
    and "read_payload env = Inr (JObj kvs)"
    and "map_of kvs ''action'' = None"
  shows "main env =
           (None, \<lparr>stdout = [JObj [(''ok'', JBool False),
                                     (''error'', JStr ''Missing action in payload'')]],
                   dispatched = []\<rparr>)"
  using main_no_action [OF assms(1) assms(2)] assms(3)
  by (simp add: failure_envelope_def str_truthy_def)

theorem missing_action_short_circuits_witness:
  "\<not> str_truthy (import_error (env_returning ''{}'' (JObj []) (PyInt 1)))
   \<and> read_payload (env_returning ''{}'' (JObj []) (PyInt 1)) = Inr (JObj [])
   \<and> map_of ([] :: (string \<times> json) list) ''action'' = None
   \<and> main (env_returning ''{}'' (JObj []) (PyInt 1)) =
       (None, \<lparr>stdout = [JObj [(''ok'', JBool False),
                                 (''error'', JStr ''Missing action in payload'')]],
               dispatched = []\<rparr>)"
proof -
  have h1: "\<not> str_truthy (import_error (env_returning ''{}'' (JObj []) (PyInt 1)))"
    by (simp add: env_returning_def str_truthy_def)
  have h2: "read_payload (env_returning ''{}'' (JObj []) (PyInt 1)) = Inr (JObj [])"
    by (simp add: env_returning_def read_payload_def py_strip_def py_isspace_def)
  have h3: "map_of ([] :: (string \<times> json) list) ''action'' = None"
    by simp
  from missing_action_short_circuits [OF h1 h2 h3] h1 h2 h3 show ?thesis
    by simp
qed

text \<open>
  C10. When the imports succeeded and standard input is empty or holds only whitespace,
  \<^verbatim>\<open>json.loads\<close> is not consulted (the result is the same whatever it would do, raise
  included): the request is the empty document, and the failure envelope with the error
  \<^verbatim>\<open>Missing action in payload\<close> is the one document written.
\<close>

theorem blank_input_is_empty_document:
  assumes "\<not> str_truthy (import_error env)"
    and "\<forall>c\<in>set (stdin env). py_isspace c"
  shows "read_payload (env\<lparr>json_loads := loads\<rparr>) = Inr (JObj [])
         \<and> main (env\<lparr>json_loads := loads\<rparr>) =
             (None, \<lparr>stdout = [JObj [(''ok'', JBool False),
                                       (''error'', JStr ''Missing action in payload'')]],
                     dispatched = []\<rparr>)"
proof -
  let ?env = "env\<lparr>json_loads := loads\<rparr>"
  have blank: "py_strip (stdin ?env) = []"
    using assms(2) by (simp add: py_strip_empty_iff)
  then have rd: "read_payload ?env = Inr (JObj [])"
    by (simp add: read_payload_def)
  have imp: "\<not> str_truthy (import_error ?env)"
    using assms(1) by simp
  from main_no_action [OF imp rd] rd show ?thesis
    by (simp add: failure_envelope_def str_truthy_def)
qed

theorem blank_input_is_empty_document_witness:
  "\<not> str_truthy (import_error (env_rejecting [CHR 0x20, CHR 0x0A, CHR 0x09]))
   \<and> list_all py_isspace (stdin (env_rejecting [CHR 0x20, CHR 0x0A, CHR 0x09]))
   \<and> main (env_rejecting [CHR 0x20, CHR 0x0A, CHR 0x09]) =
       (None, \<lparr>stdout = [JObj [(''ok'', JBool False),
                                 (''error'', JStr ''Missing action in payload'')]],
               dispatched = []\<rparr>)"
proof -
  let ?env = "env_rejecting [CHR 0x20, CHR 0x0A, CHR 0x09]"
  have h1: "\<not> str_truthy (import_error ?env)"
    by (simp add: env_rejecting_def str_truthy_def)
  have h2: "\<forall>c\<in>set (stdin ?env). py_isspace c"
    by (simp add: env_rejecting_def py_isspace_def)
  from blank_input_is_empty_document [OF h1 h2, of "json_loads ?env"] h1 h2 show ?thesis
    by (simp add: list_all_iff)
qed

subsection \<open>The request boundary\<close>

text \<open>
  C4 does not hold of \<^verbatim>\<open>main\<close>: \<^verbatim>\<open>_read_payload\<close> is called outside the \<^verbatim>\<open>try\<close>. When
  the imports succeeded, standard input is not blank and \<^verbatim>\<open>json.loads\<close> raises on it, the
  exception escapes \<^verbatim>\<open>main\<close> and no document is written.
\<close>

theorem malformed_input_escapes:
  assumes "\<not> str_truthy (import_error env)"
    and "py_strip (stdin env) \<noteq> []"
    and "json_loads env (stdin env) = Inl e"
  shows "main env = (Some e, \<lparr>stdout = [], dispatched = []\<rparr>)"
  using assms by (simp add: main_def read_payload_def start_def)

theorem malformed_input_escapes_witness:
  "main (env_rejecting ''not json'') =
     (Some (Exn ''JSONDecodeError'' ''Expecting value: line 1 column 1 (char 0)''),
      \<lparr>stdout = [], dispatched = []\<rparr>)"
proof -
  have h1: "\<not> str_truthy (import_error (env_rejecting ''not json''))"
    by (simp add: env_rejecting_def str_truthy_def)
  have h2: "py_strip (stdin (env_rejecting ''not json'')) \<noteq> []"
    by (simp add: env_rejecting_def py_strip_def py_isspace_def)
  have h3: "json_loads (env_rejecting ''not json'') (stdin (env_rejecting ''not json''))
              = Inl (Exn ''JSONDecodeError'' ''Expecting value: line 1 column 1 (char 0)'')"
    by (simp add: env_rejecting_def)
  from malformed_input_escapes [OF h1 h2 h3] show ?thesis .
qed

subsection \<open>Tables and series\<close>

text \<open>
  C5, as stated, fails: the record a DataFrame is normalised to has no field \<open>kind\<close> and
  no field \<open>rows\<close>, and the record of a Series has no field \<open>kind\<close>; the tag is the
  field \<^verbatim>\<open>__type__\<close>.
\<close>

theorem table_has_no_kind_field:
  "py_lookup (serialize_value frame_example) ''kind'' = None
   \<and> py_lookup (serialize_value frame_example) ''rows'' = None
   \<and> py_lookup (serialize_value frame_example) ''__type__'' = Some (PyStr ''dataframe'')
   \<and> py_lookup (serialize_value series_example) ''kind'' = None
   \<and> py_lookup (serialize_value series_example) ''__type__'' = Some (PyStr ''series'')"
  by (simp add: frame_example_def series_example_def)

text \<open>
  C5, amended. Every DataFrame is normalised to a record with exactly the fields
  \<^verbatim>\<open>__type__\<close> (with the value \<^verbatim>\<open>"dataframe"\<close>), \<^verbatim>\<open>columns\<close>, \<^verbatim>\<open>index\<close> and \<^verbatim>\<open>data\<close>, in
  this order, the last three being lists; every Series to a record with exactly the fields
  \<^verbatim>\<open>__type__\<close> (with the value \<^verbatim>\<open>"series"\<close>), \<^verbatim>\<open>name\<close>, \<^verbatim>\<open>index\<close> and \<^verbatim>\<open>data\<close>. When
  the record is written, the document is an object with these fields, \<^verbatim>\<open>__type__\<close> first.
\<close>

theorem dataset_is_tagged_record:
  "(\<exists>cs is rs. serialize_value (PyDataFrame cols idx cells) =
       PyDict [(LStr ''__type__'', PyStr ''dataframe''), (LStr ''columns'', PyList cs),
               (LStr ''index'', PyList is), (LStr ''data'', PyList rs)])
   \<and> (\<exists>n is ds. serialize_value (PySeries name sidx vals) =
       PyDict [(LStr ''__type__'', PyStr ''series''), (LStr ''name'', n),
               (LStr ''index'', PyList is), (LStr ''data'', PyList ds)])
   \<and> (json_dumps allow_nan (serialize_value (PyDataFrame cols idx cells)) = Inr doc \<longrightarrow>
        (\<exists>cs is rs. doc = JObj [(''__type__'', JStr ''dataframe''), (''columns'', JArr cs),
                                (''index'', JArr is), (''data'', JArr rs)]))
   \<and> (json_dumps allow_nan (serialize_value (PySeries name sidx vals)) = Inr sdoc \<longrightarrow>
        (\<exists>n is ds. sdoc = JObj [(''__type__'', JStr ''series''), (''name'', n),
                                (''index'', JArr is), (''data'', JArr ds)]))"
  by (auto simp: Let_def split: sum.splits)

theorem dataset_is_tagged_record_witness:
  "json_dumps False (serialize_value frame_example) =
     Inr (JObj [(''__type__'', JStr ''dataframe''),
                (''columns'', JArr [JStr ''date'', JStr ''value'']),
                (''index'', JArr [JInt 0, JInt 1]),
                (''data'', JArr [JArr [JStr ''2024-01-01'', JFloat (Finite ''1.0'')],
                                 JArr [JStr ''2024-01-02'', JNull]])])
   \<and> json_dumps False (serialize_value series_example) =
     Inr (JObj [(''__type__'', JStr ''series''), (''name'', JStr ''close''),
                (''index'', JArr [JStr ''2024-03-01T00:00:00+00:00'']),
                (''data'', JArr [JFloat (Finite ''42.5'')])])"
proof -
  have iso: "isoformat ts_example = ''2024-03-01T00:00:00+00:00''"
    by code_simp
  have f: "json_dumps False (serialize_value frame_example) =
     Inr (JObj [(''__type__'', JStr ''dataframe''),
                (''columns'', JArr [JStr ''date'', JStr ''value'']),
                (''index'', JArr [JInt 0, JInt 1]),
                (''data'', JArr [JArr [JStr ''2024-01-01'', JFloat (Finite ''1.0'')],
                                 JArr [JStr ''2024-01-02'', JNull]])])"
    by (simp add: frame_example_def where_notnull_def dumps_float_def is_finite_def)
  have s: "json_dumps False (serialize_value series_example) =
     Inr (JObj [(''__type__'', JStr ''series''), (''name'', JStr ''close''),
                (''index'', JArr [JStr ''2024-03-01T00:00:00+00:00'']),
                (''data'', JArr [JFloat (Finite ''42.5'')])])"
    by (simp add: series_example_def where_notnull_def dumps_float_def is_finite_def iso)
  from dataset_is_tagged_record
    [of "[LStr ''date'', LStr ''value'']" "[PyInt 0, PyInt 1]"
        "[[PyStr ''2024-01-01'', PyFloat (Finite ''1.0'')], [PyStr ''2024-01-02'', PyFloat NaN]]"
        "LStr ''close''" "[PyTimestamp ts_example]" "[PyFloat (Finite ''42.5'')]" False]
    f s
  show ?thesis by simp
qed


text \<open>
  C6, as stated, fails for column labels: a column label that is a timestamp is converted
  with \<^verbatim>\<open>str()\<close>, which separates date and time by a space, and not to its ISO-8601 text.
\<close>

theorem timestamp_column_label_is_not_iso:
  "py_lookup (serialize_value dated_frame_example) ''columns''
     = Some (PyList [PyStr ''2024-03-01 00:00:00+00:00''])
   \<and> isoformat ts_example = ''2024-03-01T00:00:00+00:00''
   \<and> py_lookup (serialize_value dated_frame_example) ''columns''
     \<noteq> Some (PyList [PyStr (isoformat ts_example)])"
proof -
  have iso: "isoformat ts_example = ''2024-03-01T00:00:00+00:00''"
    by code_simp
  have sp: "isoformat_sep CHR '' '' ts_example = ''2024-03-01 00:00:00+00:00''"
    by code_simp
  show ?thesis
    by (simp add: dated_frame_example_def iso sp)
qed

text \<open>
  C6, amended. The row labels of a DataFrame are each passed through \<^verbatim>\<open>_to_iso\<close>: a
  timestamp becomes its ISO-8601 text (date, \<^verbatim>\<open>T\<close>, time, and the UTC offset when it has
  one), a period its textual label, and any other label is kept as it is. The column labels
  are each converted with \<^verbatim>\<open>str()\<close>: a period becomes its textual label, and a timestamp
  the text with a space in place of the \<^verbatim>\<open>T\<close>, which is never its ISO-8601 text.
\<close>

theorem table_labels:
  "py_lookup (serialize_value (PyDataFrame cols idx cells)) ''index''
     = Some (PyList (map to_iso idx))
   \<and> py_lookup (serialize_value (PyDataFrame cols idx cells)) ''columns''
     = Some (PyList (map (\<lambda>c. PyStr (py_str c)) cols))
   \<and> to_iso (PyTimestamp t) = PyStr (date_text t @ ''T'' @ time_text t @ offset_text (ts_utcoffset t))
   \<and> to_iso (PyPeriod p) = PyStr p
   \<and> (\<forall>v. (\<forall>t'. v \<noteq> PyTimestamp t') \<and> (\<forall>p'. v \<noteq> PyPeriod p') \<longrightarrow> to_iso v = v)
   \<and> py_str (LTimestamp t) = date_text t @ '' '' @ time_text t @ offset_text (ts_utcoffset t)
   \<and> py_str (LPeriod p) = p
   \<and> py_str (LTimestamp t) \<noteq> isoformat t"
proof -
  have "to_iso v = v" if "\<forall>t'. v \<noteq> PyTimestamp t'" "\<forall>p'. v \<noteq> PyPeriod p'" for v
    using that by (cases v) simp_all
  then show ?thesis
    by (simp add: isoformat_def isoformat_sep_def)
qed

theorem table_labels_witness:
  "py_lookup (serialize_value dated_frame_example) ''index''
     = Some (PyList [PyStr ''2024-03-01T00:00:00+00:00'', PyStr ''2024Q1''])
   \<and> py_lookup (serialize_value dated_frame_example) ''columns''
     = Some (PyList [PyStr ''2024-03-01 00:00:00+00:00''])"
proof -
  have iso: "isoformat ts_example = ''2024-03-01T00:00:00+00:00''"
    by code_simp
  have sp: "isoformat_sep CHR '' '' ts_example = ''2024-03-01 00:00:00+00:00''"
    by code_simp
  note t = table_labels [of "[LTimestamp ts_example]"
                            "[PyTimestamp ts_example, PyPeriod ''2024Q1'']"
                            "[[PyInt 1], [PyInt 2]]" ts_example "''2024Q1''"]
  from t [THEN conjunct1] t [THEN conjunct2, THEN conjunct1]
  show ?thesis
    by (simp add: dated_frame_example_def iso sp)
qed

text \<open>
  C7. For a DataFrame (one row of cells for each index label, one cell for each column in
  every row) the normalised record has as many index entries as rows, and every row is a
  list with one element for each column; for a Series (one value for each index label) the
  normalised record has as many index entries as data elements. The rows are the field
  \<^verbatim>\<open>data\<close> of the record.
\<close>

theorem shape_invariants:
  "(length idx = length cells \<and> (\<forall>row\<in>set cells. length row = length cols) \<longrightarrow>
      (\<exists>cs is rs. serialize_value (PyDataFrame cols idx cells) =
          PyDict [(LStr ''__type__'', PyStr ''dataframe''), (LStr ''columns'', PyList cs),
                  (LStr ''index'', PyList is), (LStr ''data'', PyList rs)]
        \<and> length is = length rs
        \<and> (\<forall>r\<in>set rs. \<exists>xs. r = PyList xs \<and> length xs = length cs)))
   \<and> (length sidx = length vals \<longrightarrow>
      (\<exists>n is ds. serialize_value (PySeries name sidx vals) =
          PyDict [(LStr ''__type__'', PyStr ''series''), (LStr ''name'', n),
                  (LStr ''index'', PyList is), (LStr ''data'', PyList ds)]
        \<and> length is = length ds))"
  by (auto simp: Let_def)

theorem shape_invariants_witness:
  "length [PyInt 0, PyInt 1] =
     length [[PyStr ''2024-01-01'', PyFloat (Finite ''1.0'')], [PyStr ''2024-01-02'', PyFloat NaN]]
   \<and> list_all (\<lambda>row. length row = length [LStr ''date'', LStr ''value''])
        [[PyStr ''2024-01-01'', PyFloat (Finite ''1.0'')], [PyStr ''2024-01-02'', PyFloat NaN]]
   \<and> serialize_value frame_example =
       PyDict [(LStr ''__type__'', PyStr ''dataframe''),
               (LStr ''columns'', PyList [PyStr ''date'', PyStr ''value'']),
               (LStr ''index'', PyList [PyInt 0, PyInt 1]),
               (LStr ''data'', PyList [PyList [PyStr ''2024-01-01'', PyFloat (Finite ''1.0'')],
                                       PyList [PyStr ''2024-01-02'', PyNone]])]
   \<and> length [PyTimestamp ts_example] = length [PyFloat (Finite ''42.5'')]
   \<and> serialize_value series_example =
       PyDict [(LStr ''__type__'', PyStr ''series''), (LStr ''name'', PyStr ''close''),
               (LStr ''index'', PyList [PyStr ''2024-03-01T00:00:00+00:00'']),
               (LStr ''data'', PyList [PyFloat (Finite ''42.5'')])]"
proof -
  have iso: "isoformat ts_example = ''2024-03-01T00:00:00+00:00''"
    by code_simp
  from shape_invariants
    [of "[PyInt 0, PyInt 1]"
        "[[PyStr ''2024-01-01'', PyFloat (Finite ''1.0'')], [PyStr ''2024-01-02'', PyFloat NaN]]"
        "[LStr ''date'', LStr ''value'']"
        "[PyTimestamp ts_example]" "[PyFloat (Finite ''42.5'')]" "LStr ''close''"]
  show ?thesis
    by (simp add: frame_example_def series_example_def where_notnull_def iso)
qed

subsection \<open>Objects with keys and indexed access\<close>




end
